theory Spec2Isabelle
  imports Main
begin

section \<open>The edit-task dialog of the to-do application\<close>

text \<open>
  A shallow embedding of \<^verbatim>\<open>src/components/EditTask.tsx\<close>: the component's props and
  state as a record, its event handlers and its three effect hooks as functions on that
  record, and the calls it makes to the outside (\<^verbatim>\<open>onSave\<close>, \<^verbatim>\<open>onClose\<close>, the toast,
  the write to \<^verbatim>\<open>document.body.style.overflow\<close>) as a trace in the order they happen.
\<close>

subsection \<open>JavaScript values and objects\<close>

text \<open>
  Modelled from the spec: the types \<^verbatim>\<open>Category\<close> and \<^verbatim>\<open>Task\<close> of \<^verbatim>\<open>../types/user\<close> are
  not among the sources. A category is an opaque reference that the component passes
  through unchanged; it is identified by a number here.
\<close>

datatype category = Category nat

text \<open>
  The values a property of a task holds: \<^verbatim>\<open>undefined\<close>, a string (the list of its code
  units, so that \<^verbatim>\<open>.length\<close> is \<^const>\<open>length\<close>), a number (identifiers and time stamps)
  or an array of categories.
\<close>

datatype val = Undefined | Str string | Number int | Cats "category list"

text \<open>
  An object is what reading each of its properties returns: a property that is absent and
  a property that holds \<^verbatim>\<open>undefined\<close> both read \<^verbatim>\<open>undefined\<close>. A value of type
  \<^verbatim>\<open>Task | undefined\<close> is an \<open>obj option\<close>.
\<close>

type_synonym obj = "string \<Rightarrow> val"

definition empty_obj :: obj where
  "empty_obj = (\<lambda>k. Undefined)"

text \<open>JavaScript truthiness: every array is truthy, the empty one too.\<close>

fun truthy :: "val \<Rightarrow> bool" where
  "truthy Undefined = False"
| "truthy (Str s) = (s \<noteq> [])"
| "truthy (Number n) = (n \<noteq> 0)"
| "truthy (Cats cs) = True"

text \<open>\<^verbatim>\<open>a || b\<close>\<close>

definition js_or :: "val \<Rightarrow> val \<Rightarrow> val" where
  "js_or a b = (if truthy a then a else b)"

text \<open>\<^verbatim>\<open>{...(o as Task)}\<close>: spreading \<^verbatim>\<open>undefined\<close> yields the empty object.\<close>

fun spread :: "obj option \<Rightarrow> obj" where
  "spread None = empty_obj"
| "spread (Some t) = t"

text \<open>\<^verbatim>\<open>o?.k\<close>\<close>

fun opt_chain :: "obj option \<Rightarrow> string \<Rightarrow> val" where
  "opt_chain None k = Undefined"
| "opt_chain (Some t) k = t k"

text \<open>
  Modelled from the spec: the \<^verbatim>\<open>Task\<close> type (section 3 of the specification): the name and
  the color are strings, description and emoji are optional strings, the category is an
  optional array of categories. Identifier, deadline and last-save stamp are opaque.
\<close>

fun is_str :: "val \<Rightarrow> bool" where
  "is_str (Str s) = True"
| "is_str v = False"

fun is_opt_str :: "val \<Rightarrow> bool" where
  "is_opt_str Undefined = True"
| "is_opt_str (Str s) = True"
| "is_opt_str v = False"

fun is_opt_cats :: "val \<Rightarrow> bool" where
  "is_opt_cats Undefined = True"
| "is_opt_cats (Cats cs) = True"
| "is_opt_cats v = False"

definition is_Task :: "obj \<Rightarrow> bool" where
  "is_Task t =
     (is_str (t ''name'') \<and> is_str (t ''color'') \<and> is_opt_str (t ''description'')
      \<and> is_opt_str (t ''emoji'') \<and> is_opt_cats (t ''category''))"

subsection \<open>Props, state and the outside world\<close>

text \<open>
  What the component reads from its surroundings: the two limits imported from
  \<^verbatim>\<open>../constants\<close>, which is not among the sources, and the flag
  \<^verbatim>\<open>user.settings[0].enableCategories\<close> of the user context. They are parameters of the
  model.
\<close>

record env =
  TASK_NAME_MAX_LENGTH :: nat
  DESCRIPTION_MAX_LENGTH :: nat
  enableCategories :: bool

text \<open>What the component does to its surroundings, in the order it does it.\<close>

datatype effect =
    SetBodyOverflow string
  | OnSave obj
  | ToastSuccess val
  | OnClose

text \<open>
  The \<^verbatim>\<open>task\<close> prop, the five \<^verbatim>\<open>useState\<close> cells and the trace. The \<^verbatim>\<open>open\<close> prop is only
  handed to the dialog widget: no handler and no effect reads it, so everything below
  holds whether the dialog is shown or not.
\<close>

record st =
  task :: "obj option"
  editedTask :: "obj option"
  nameError :: bool
  descriptionError :: bool
  emoji :: val
  selectedCategories :: val
  trace :: "effect list"

subsection \<open>Event handlers\<close>

definition handleInputChange :: "env \<Rightarrow> string \<Rightarrow> string \<Rightarrow> st \<Rightarrow> st" where
  "handleInputChange c name value s =
     (let s1 = (if name = ''name'' \<and> length value > TASK_NAME_MAX_LENGTH c
                then s\<lparr>nameError := True\<rparr>
                else s\<lparr>nameError := False\<rparr>);
          s2 = (if name = ''description'' \<and> length value > DESCRIPTION_MAX_LENGTH c
                then s1\<lparr>descriptionError := True\<rparr>
                else s1\<lparr>descriptionError := False\<rparr>)
      in s2\<lparr>editedTask := Some ((spread (editedTask s2))(name := Str value))\<rparr>)"

definition handleSave :: "st \<Rightarrow> st" where
  "handleSave s =
     (let s1 = s\<lparr>trace := trace s @ [SetBodyOverflow ''auto'']\<rparr>
      in case editedTask s of
           None \<Rightarrow> s1
         | Some d \<Rightarrow>
             if \<not> nameError s \<and> \<not> descriptionError s
             then s1\<lparr>trace := trace s1 @ [OnSave d, ToastSuccess (d ''name'')]\<rparr>
             else s1)"

definition handleCancel :: "st \<Rightarrow> st" where
  "handleCancel s =
     s\<lparr>trace := trace s @ [OnClose],
       editedTask := task s,
       selectedCategories := opt_chain (task s) ''category''\<rparr>"

text \<open>The \<^verbatim>\<open>onClose\<close> handler given to the dialog widget (backdrop click, escape key).\<close>

definition dialogOnClose :: "st \<Rightarrow> st" where
  "dialogOnClose s =
     s\<lparr>trace := trace s @ [OnClose],
       editedTask := task s,
       selectedCategories := opt_chain (task s) ''category''\<rparr>"

text \<open>The click handler of the deadline field's clear button.\<close>

definition clearDeadline :: "st \<Rightarrow> st" where
  "clearDeadline s = s\<lparr>editedTask := Some ((spread (editedTask s))(''deadline'' := Undefined))\<rparr>"

definition onColorChange :: "string \<Rightarrow> st \<Rightarrow> st" where
  "onColorChange color s = s\<lparr>editedTask := Some ((spread (editedTask s))(''color'' := Str color))\<rparr>"

text \<open>The state setters handed to the emoji picker and to the category selector.\<close>

definition setEmoji :: "val \<Rightarrow> st \<Rightarrow> st" where
  "setEmoji e s = s\<lparr>emoji := e\<rparr>"

definition setSelectedCategories :: "val \<Rightarrow> st \<Rightarrow> st" where
  "setSelectedCategories v s = s\<lparr>selectedCategories := v\<rparr>"

text \<open>The \<^verbatim>\<open>disabled\<close> attribute of the Save button: \<^verbatim>\<open>nameError || editedTask?.name === ""\<close>.\<close>

definition save_disabled :: "st \<Rightarrow> bool" where
  "save_disabled s = (nameError s \<or> opt_chain (editedTask s) ''name'' = Str '''')"

subsection \<open>Effect hooks\<close>

text \<open>
  The three \<^verbatim>\<open>useEffect\<close> hooks, in the order the component declares them. An effect
  reads the state of the render it belongs to (its closure, \<open>r\<close>) and queues updates;
  the queue of one render is applied in order, each updater function receiving the
  result of the update before it (\<open>s\<close>).
\<close>

definition emoji_effect :: "st \<Rightarrow> st \<Rightarrow> st" where
  "emoji_effect r s = s\<lparr>editedTask := Some ((spread (editedTask s))(''emoji'' := emoji r))\<rparr>"

definition task_effect :: "st \<Rightarrow> st \<Rightarrow> st" where
  "task_effect r s =
     s\<lparr>editedTask := task r, selectedCategories := opt_chain (task r) ''category''\<rparr>"

definition categories_effect :: "st \<Rightarrow> st \<Rightarrow> st" where
  "categories_effect r s =
     s\<lparr>editedTask :=
         Some ((spread (editedTask s))(''category'' := js_or (selectedCategories r) Undefined))\<rparr>"

text \<open>
  One round of effects after the render \<open>r\<close>: each hook runs when its dependency
  (\<^verbatim>\<open>[emoji]\<close>, \<^verbatim>\<open>[task]\<close>, \<^verbatim>\<open>[selectedCategories]\<close>) has changed since the render before.
\<close>

definition run_effects :: "bool \<Rightarrow> bool \<Rightarrow> bool \<Rightarrow> st \<Rightarrow> st" where
  "run_effects emoji_changed task_changed categories_changed r =
     (let s1 = (if emoji_changed then emoji_effect r r else r);
          s2 = (if task_changed then task_effect r s1 else s1);
          s3 = (if categories_changed then categories_effect r s2 else s2)
      in s3)"

text \<open>
  The render that follows a change of state only: the prop is the same, the emoji is a
  primitive and is compared by value. Arrays are compared by value too, where React
  compares references: when React meets a fresh array equal to the one before, the
  category effect it runs again writes a value the draft already holds
  (\<open>categories_effect_again\<close> below).
\<close>

definition rerender :: "st \<Rightarrow> st \<Rightarrow> st" where
  "rerender p r =
     run_effects (emoji r \<noteq> emoji p) False (selectedCategories r \<noteq> selectedCategories p) r"

text \<open>
  From the render \<open>p\<close> to the next state at rest: the component renders \<open>r\<close>, its effects
  run, and the state they leave is rendered in turn. A third round has nothing to do
  (\<open>commit_at_rest\<close> below). \<open>task_changed\<close> says that the parent passed another task
  reference, \<open>fresh_categories\<close> that the category selector passed a new array.
\<close>

definition commit :: "bool \<Rightarrow> bool \<Rightarrow> st \<Rightarrow> st \<Rightarrow> st" where
  "commit task_changed fresh_categories p r =
     (let s1 = run_effects (emoji r \<noteq> emoji p) task_changed
                 (fresh_categories \<or> selectedCategories r \<noteq> selectedCategories p) r
      in rerender r s1)"

text \<open>The first render, with the initial values of the \<^verbatim>\<open>useState\<close> cells.\<close>

definition initial :: "obj option \<Rightarrow> st" where
  "initial T =
     \<lparr>task = T, editedTask = T, nameError = False, descriptionError = False,
      emoji = Undefined, selectedCategories = Cats [], trace = []\<rparr>"

text \<open>Mounting: after the first render every effect runs.\<close>

definition mount :: "obj option \<Rightarrow> st" where
  "mount T = (let r = initial T; s1 = run_effects True True True r in rerender r s1)"

subsection \<open>Events\<close>

text \<open>The three inputs wired to \<^verbatim>\<open>handleInputChange\<close>, and their \<^verbatim>\<open>name\<close> attributes.\<close>

datatype field = NameField | DescriptionField | DeadlineField

fun field_name :: "field \<Rightarrow> string" where
  "field_name NameField = ''name''"
| "field_name DescriptionField = ''description''"
| "field_name DeadlineField = ''deadline''"

fun of_opt_str :: "string option \<Rightarrow> val" where
  "of_opt_str None = Undefined"
| "of_opt_str (Some x) = Str x"

datatype event =
    TaskProp "obj option"
  | Input field string
  | ClickSave
  | ClickCancel
  | DialogDismiss
  | PickEmoji "string option"
  | SelectCategories "category list"
  | PickColor string
  | ClickClearDeadline

text \<open>
  What one event does. A disabled Save button does not call its handler; the clear
  button exists only while the draft has a deadline, the category selector only while
  categories are enabled.
\<close>

fun step :: "env \<Rightarrow> event \<Rightarrow> st \<Rightarrow> st" where
  "step c (TaskProp T) s = commit True False s (s\<lparr>task := T\<rparr>)"
| "step c (Input f v) s = commit False False s (handleInputChange c (field_name f) v s)"
| "step c ClickSave s =
     (if save_disabled s then s else commit False False s (handleSave s))"
| "step c ClickCancel s = commit False False s (handleCancel s)"
| "step c DialogDismiss s = commit False False s (dialogOnClose s)"
| "step c (PickEmoji e) s = commit False False s (setEmoji (of_opt_str e) s)"
| "step c (SelectCategories cs) s =
     (if enableCategories c then commit False True s (setSelectedCategories (Cats cs) s)
      else s)"
| "step c (PickColor col) s = commit False False s (onColorChange col s)"
| "step c ClickClearDeadline s =
     (if truthy (opt_chain (editedTask s) ''deadline'') then commit False False s (clearDeadline s)
      else s)"

fun run :: "env \<Rightarrow> event list \<Rightarrow> st \<Rightarrow> st" where
  "run c [] s = s"
| "run c (e # es) s = run c es (step c e s)"

text \<open>The value of \<^verbatim>\<open>document.body.style.overflow\<close> after a trace, from the value \<open>cur\<close>.\<close>

fun body_overflow :: "string \<Rightarrow> effect list \<Rightarrow> string" where
  "body_overflow cur [] = cur"
| "body_overflow cur (SetBodyOverflow v # es) = body_overflow v es"
| "body_overflow cur (e # es) = body_overflow cur es"

text \<open>A supplied task is absent or a \<^verbatim>\<open>Task\<close>.\<close>

fun task_ok :: "obj option \<Rightarrow> bool" where
  "task_ok None = True"
| "task_ok (Some t) = is_Task t"

subsection \<open>Example inputs\<close>

definition limits :: env where
  "limits = \<lparr>TASK_NAME_MAX_LENGTH = 40, DESCRIPTION_MAX_LENGTH = 250, enableCategories = True\<rparr>"

definition buy_milk :: obj where
  "buy_milk =
     empty_obj(''name'' := Str ''Buy milk'', ''description'' := Str '''',
               ''color'' := Str ''#ffffff'', ''category'' := Cats [])"

definition walk_dog :: obj where
  "walk_dog =
     empty_obj(''id'' := Number 7, ''name'' := Str ''Walk the dog'',
               ''emoji'' := Str ''1f415'', ''color'' := Str ''#b624ff'',
               ''category'' := Cats [Category 1, Category 2])"

text \<open>A run of edits on the first example, touching each of the six attributes.\<close>

definition oat_milk_edits :: "event list" where
  "oat_milk_edits =
     [Input NameField ''Buy oat milk'', Input DescriptionField ''two litres'',
      Input DeadlineField ''2024-01-01T10:00'', PickEmoji (Some ''1f95b''),
      PickColor ''#00ff00'', SelectCategories [Category 3]]"

definition oat_milk :: obj where
  "oat_milk =
     buy_milk(''name'' := Str ''Buy oat milk'', ''description'' := Str ''two litres'',
              ''deadline'' := Str ''2024-01-01T10:00'', ''emoji'' := Str ''1f95b'',
              ''color'' := Str ''#00ff00'', ''category'' := Cats [Category 3])"

section \<open>Properties\<close>

subsection \<open>The state comes to rest\<close>

text \<open>
  The second round of effects changes nothing but the draft, so a third round finds no
  dependency changed.
\<close>

lemma commit_at_rest: "rerender s1 (rerender r s1) = rerender r s1"
  by (simp add: rerender_def run_effects_def emoji_effect_def categories_effect_def Let_def)

text \<open>
  Running the category effect once more for an array equal to the one it ran for leaves
  the state as it is.
\<close>

lemma categories_effect_again:
  assumes "editedTask s = Some d" and "d ''category'' = js_or (selectedCategories r) Undefined"
  shows "categories_effect r s = s"
proof -
  have "d(''category'' := js_or (selectedCategories r) Undefined) = d"
    using assms(2) by (simp add: fun_upd_idem)
  then show ?thesis
    using assms(1) by (simp add: categories_effect_def)
qed

lemma js_or_opt_cats: "is_opt_cats v \<Longrightarrow> js_or v Undefined = v"
  by (cases v) (simp_all add: js_or_def)

lemma spread_category_triv: "(spread T)(''category'' := opt_chain T ''category'') = spread T"
  by (cases T) (simp_all add: empty_obj_def fun_eq_iff)

lemma task_ok_category: "task_ok T \<Longrightarrow> is_opt_cats (opt_chain T ''category'')"
  by (cases T) (simp_all add: is_Task_def)

text \<open>
  Once the draft and the selection have been set from the task (by the task effect or by
  a cancel handler), the round that follows leaves the draft equal to the task.
\<close>

lemma reset_settles:
  assumes "task_ok T" and "emoji s1 = emoji r"
    and "editedTask s1 = T" and "selectedCategories s1 = opt_chain T ''category''"
  shows "spread (editedTask (rerender r s1)) = spread T"
    and "selectedCategories (rerender r s1) = opt_chain T ''category''"
    and "T \<noteq> None \<Longrightarrow> editedTask (rerender r s1) = T"
    and "trace (rerender r s1) = trace s1"
  using assms js_or_opt_cats [OF task_ok_category [OF assms(1)]]
  by (auto simp add: rerender_def run_effects_def emoji_effect_def categories_effect_def
      Let_def spread_category_triv)

lemma mount_settles:
  assumes "task_ok T"
  shows "editedTask (mount T) = Some (spread T)"
    and "selectedCategories (mount T) = opt_chain T ''category''"
proof -
  have c: "js_or (opt_chain T ''category'') Undefined = opt_chain T ''category''"
    using assms by (simp add: js_or_opt_cats task_ok_category)
  have e: "opt_chain T ''category'' = Cats [] \<Longrightarrow> (spread T)(''category'' := Cats []) = spread T"
    using spread_category_triv [of T] by simp
  show "editedTask (mount T) = Some (spread T)"
    using c e
    by (simp add: mount_def initial_def rerender_def run_effects_def emoji_effect_def
        task_effect_def categories_effect_def Let_def js_or_def spread_category_triv)
  show "selectedCategories (mount T) = opt_chain T ''category''"
    by (simp add: mount_def initial_def rerender_def run_effects_def emoji_effect_def
        task_effect_def categories_effect_def Let_def)
qed

text \<open>
  The definitions of the model and of the example inputs, for evaluating concrete runs.
\<close>

lemmas model_defs = mount_def initial_def commit_def rerender_def run_effects_def
  emoji_effect_def task_effect_def categories_effect_def handleInputChange_def
  handleCancel_def dialogOnClose_def clearDeadline_def onColorChange_def setEmoji_def
  setSelectedCategories_def save_disabled_def js_or_def Let_def

lemmas example_defs = limits_def buy_milk_def walk_dog_def empty_obj_def

text \<open>
  Appending to a trace continues from the overflow value the first part leaves.
\<close>

lemma body_overflow_append:
  "body_overflow cur (xs @ ys) = body_overflow (body_overflow cur xs) ys"
proof (induction xs arbitrary: cur)
  case Nil
  show ?case by simp
next
  case (Cons x xs)
  then show ?case by (cases x) simp_all
qed

subsection \<open>Saving\<close>

text \<open>
  What the save handler hands over: when the draft is present and both validation flags
  are false, the handler appends to the trace the scroll reset, one \<^verbatim>\<open>onSave\<close> call
  carrying the draft cell as it is, and the toast carrying the draft's name, and nothing
  else.
\<close>

lemma handleSave_valid_draft:
  assumes "editedTask s = Some d" and "\<not> nameError s" and "\<not> descriptionError s"
  shows "trace (handleSave s) =
           trace s @ [SetBodyOverflow ''auto'', OnSave d, ToastSuccess (d ''name'')]"
  using assms by (simp add: handleSave_def)

text \<open>
  The first example is edited in each of its six attributes and the draft is saved.
\<close>

lemma handleSave_valid_draft_example:
  "editedTask (run limits oat_milk_edits (mount (Some buy_milk))) = Some oat_milk
   \<and> \<not> nameError (run limits oat_milk_edits (mount (Some buy_milk)))
   \<and> \<not> descriptionError (run limits oat_milk_edits (mount (Some buy_milk)))
   \<and> trace (handleSave (run limits oat_milk_edits (mount (Some buy_milk))))
     = [SetBodyOverflow ''auto'', OnSave oat_milk, ToastSuccess (Str ''Buy oat milk'')]"
proof -
  let ?s = "run limits oat_milk_edits (mount (Some buy_milk))"
  have d: "editedTask ?s = Some oat_milk"
    by (simp add: oat_milk_edits_def oat_milk_def model_defs example_defs)
  have n: "\<not> nameError ?s" and e: "\<not> descriptionError ?s" and t: "trace ?s = []"
    by (simp_all add: oat_milk_edits_def model_defs example_defs)
  have nm: "oat_milk ''name'' = Str ''Buy oat milk''"
    by (simp add: oat_milk_def)
  show ?thesis
    using d n e t nm handleSave_valid_draft [OF d n e] by simp
qed

text \<open>
  Which edits reach the draft. The inputs, the color picker, the category selector and the
  clear button of the deadline write their value into the draft at every event. The emoji
  picker writes to the \<^verbatim>\<open>emoji\<close> cell, and the draft follows through the emoji effect,
  which runs only when the cell's value changes: a pick equal to the value of the cell
  changes nothing.
\<close>

lemma edits_reach_draft:
  shows "editedTask (step c (Input f v) s) = Some ((spread (editedTask s))(field_name f := Str v))"
    and "editedTask (step c (PickColor col) s) = Some ((spread (editedTask s))(''color'' := Str col))"
    and "enableCategories c \<Longrightarrow>
         editedTask (step c (SelectCategories cs) s)
           = Some ((spread (editedTask s))(''category'' := Cats cs))"
    and "truthy (opt_chain (editedTask s) ''deadline'') \<Longrightarrow>
         editedTask (step c ClickClearDeadline s)
           = Some ((spread (editedTask s))(''deadline'' := Undefined))"
    and "of_opt_str e \<noteq> emoji s \<Longrightarrow>
         editedTask (step c (PickEmoji e) s)
           = Some ((spread (editedTask s))(''emoji'' := of_opt_str e))"
  by (simp_all add: model_defs)

lemma repeated_emoji_pick_is_lost:
  "of_opt_str e = emoji s \<Longrightarrow> step c (PickEmoji e) s = s"
  by (simp add: model_defs)

text \<open>
  C1 asks that the object handed to \<^verbatim>\<open>onSave\<close> reflects every edit made since the dialog
  opened, emoji edits included. The first pick of an emoji reaches the draft. Picked
  again after a cancel, which resets the draft but not the \<^verbatim>\<open>emoji\<close> cell, the same emoji
  does not: the draft keeps no emoji and Save hands the unchanged task to \<^verbatim>\<open>onSave\<close>.
  Likewise, clearing the emoji of a task right after mounting, while the cell still holds
  its initial \<^verbatim>\<open>undefined\<close>, leaves the task's emoji in the draft that is saved.
\<close>

theorem emoji_pick_missing_from_saved_draft:
  "opt_chain (editedTask (run limits [PickEmoji (Some ''1f95b'')] (mount (Some buy_milk)))) ''emoji''
     = Str ''1f95b''
   \<and> opt_chain (editedTask (run limits [PickEmoji (Some ''1f95b''), ClickCancel,
        PickEmoji (Some ''1f95b'')] (mount (Some buy_milk)))) ''emoji'' = Undefined
   \<and> trace (run limits [PickEmoji (Some ''1f95b''), ClickCancel,
        PickEmoji (Some ''1f95b''), ClickSave] (mount (Some buy_milk)))
     = [OnClose, SetBodyOverflow ''auto'', OnSave buy_milk, ToastSuccess (Str ''Buy milk'')]
   \<and> opt_chain (editedTask (run limits [PickEmoji None] (mount (Some walk_dog)))) ''emoji''
     = Str ''1f415''
   \<and> trace (run limits [PickEmoji None, ClickSave] (mount (Some walk_dog)))
     = [SetBodyOverflow ''auto'', OnSave walk_dog, ToastSuccess (Str ''Walk the dog'')]"
  by (simp add: model_defs example_defs handleSave_def)

text \<open>
  C9. The save handler's first step is the write of \<^verbatim>\<open>"auto"\<close> to the overflow property
  of the document body, whatever the validation says: the write is the first thing the
  handler adds to the trace, the property holds \<^verbatim>\<open>"auto"\<close> afterwards, the handler changes
  nothing of the component's state, and on a blocked save (no draft, or one of the two
  flags set) the write is the only thing that happens.
\<close>

theorem handleSave_resets_scroll_first:
  "(\<exists>rest. trace (handleSave s) = trace s @ SetBodyOverflow ''auto'' # rest)
   \<and> body_overflow cur (trace (handleSave s)) = ''auto''
   \<and> handleSave s = s\<lparr>trace := trace (handleSave s)\<rparr>
   \<and> ((editedTask s = None \<or> nameError s \<or> descriptionError s) \<longrightarrow>
        handleSave s = s\<lparr>trace := trace s @ [SetBodyOverflow ''auto'']\<rparr>)"
  by (cases "editedTask s") (auto simp add: handleSave_def Let_def body_overflow_append)

theorem handleSave_resets_scroll_first_witness:
  "descriptionError
     (step limits (Input DescriptionField (replicate 251 CHR ''d'')) (mount (Some walk_dog)))
   \<and> handleSave
       (step limits (Input DescriptionField (replicate 251 CHR ''d'')) (mount (Some walk_dog)))
     = (step limits (Input DescriptionField (replicate 251 CHR ''d'')) (mount (Some walk_dog)))
         \<lparr>trace := [SetBodyOverflow ''auto'']\<rparr>
   \<and> body_overflow ''hidden''
        (trace (handleSave (step limits (Input DescriptionField (replicate 251 CHR ''d''))
                  (mount (Some walk_dog))))) = ''auto''"
proof -
  let ?s = "step limits (Input DescriptionField (replicate 251 CHR ''d'')) (mount (Some walk_dog))"
  have e: "descriptionError ?s" and t: "trace ?s = []"
    by (simp_all add: model_defs limits_def)
  show ?thesis
    using e t handleSave_resets_scroll_first [of ?s "''hidden''"] by simp
qed

text \<open>
  C10. The save handler does not look at the name: with a draft whose name is the empty
  string and both flags false, the Save button is disabled, and the handler, if invoked,
  calls \<^verbatim>\<open>onSave\<close> with that draft all the same.
\<close>

theorem handleSave_ignores_empty_name:
  assumes "editedTask s = Some d" and "d ''name'' = Str ''''"
    and "\<not> nameError s" and "\<not> descriptionError s"
  shows "save_disabled s
       \<and> trace (handleSave s)
           = trace s @ [SetBodyOverflow ''auto'', OnSave d, ToastSuccess (Str '''')]"
  using assms by (simp add: save_disabled_def handleSave_def)

theorem handleSave_ignores_empty_name_witness:
  "editedTask (step limits (Input NameField '''') (mount (Some buy_milk)))
     = Some (buy_milk(''name'' := Str ''''))
   \<and> \<not> nameError (step limits (Input NameField '''') (mount (Some buy_milk)))
   \<and> \<not> descriptionError (step limits (Input NameField '''') (mount (Some buy_milk)))
   \<and> step limits ClickSave (step limits (Input NameField '''') (mount (Some buy_milk)))
     = step limits (Input NameField '''') (mount (Some buy_milk))
   \<and> trace (handleSave (step limits (Input NameField '''') (mount (Some buy_milk))))
     = [SetBodyOverflow ''auto'', OnSave (buy_milk(''name'' := Str '''')), ToastSuccess (Str '''')]"
proof -
  let ?s = "step limits (Input NameField '''') (mount (Some buy_milk))"
  have d: "editedTask ?s = Some (buy_milk(''name'' := Str ''''))"
    by (simp add: model_defs example_defs)
  have n: "\<not> nameError ?s" and e: "\<not> descriptionError ?s" and t: "trace ?s = []"
    by (simp_all add: model_defs example_defs)
  show ?thesis
    using d n e t handleSave_ignores_empty_name [of ?s "buy_milk(''name'' := Str '''')"]
    by simp
qed

subsection \<open>The Save button\<close>

text \<open>
  C3. The Save button is disabled exactly when the draft's name is the empty string or
  the name-too-long flag is set; the description-too-long flag has no part in it; and
  when the description-too-long flag is set, the save handler does not call \<^verbatim>\<open>onSave\<close>:
  all it does is the scroll reset.
\<close>

theorem save_button_disabled_iff:
  "save_disabled s = ((\<exists>d. editedTask s = Some d \<and> d ''name'' = Str '''') \<or> nameError s)
   \<and> save_disabled (s\<lparr>descriptionError := b\<rparr>) = save_disabled s
   \<and> (descriptionError s \<longrightarrow> trace (handleSave s) = trace s @ [SetBodyOverflow ''auto''])"
  by (cases "editedTask s") (auto simp add: save_disabled_def handleSave_def)

theorem save_button_disabled_iff_witness:
  "descriptionError (step limits (Input DescriptionField (replicate 251 CHR ''x'')) (mount (Some buy_milk)))
   \<and> \<not> save_disabled (step limits (Input DescriptionField (replicate 251 CHR ''x'')) (mount (Some buy_milk)))
   \<and> trace (handleSave (step limits (Input DescriptionField (replicate 251 CHR ''x'')) (mount (Some buy_milk))))
      = [SetBodyOverflow ''auto'']"
proof -
  let ?s = "step limits (Input DescriptionField (replicate 251 CHR ''x'')) (mount (Some buy_milk))"
  have e: "descriptionError ?s" and t: "trace ?s = []" and n: "\<not> save_disabled ?s"
    by (simp_all add: model_defs example_defs)
  show ?thesis
    using e t n save_button_disabled_iff [of ?s] by simp
qed

text \<open>
  C4. For every name longer than \<^verbatim>\<open>TASK_NAME_MAX_LENGTH\<close>, after the input-change event
  of the name field the name error flag is true and the Save button is disabled.
\<close>

theorem long_name_sets_flag_and_disables_save:
  assumes "length v > TASK_NAME_MAX_LENGTH c"
  shows "nameError (handleInputChange c ''name'' v s)
       \<and> nameError (step c (Input NameField v) s)
       \<and> save_disabled (step c (Input NameField v) s)"
  using assms by (simp add: model_defs)

theorem long_name_sets_flag_and_disables_save_witness:
  "length (replicate 41 CHR ''n'') > TASK_NAME_MAX_LENGTH limits
   \<and> nameError (step limits (Input NameField (replicate 41 CHR ''n'')) (mount (Some buy_milk)))
   \<and> save_disabled (step limits (Input NameField (replicate 41 CHR ''n'')) (mount (Some buy_milk)))"
proof -
  have h: "length (replicate 41 CHR ''n'') > TASK_NAME_MAX_LENGTH limits"
    by (simp add: limits_def)
  show ?thesis
    using h long_name_sets_flag_and_disables_save [OF h, of "mount (Some buy_milk)"] by simp
qed

text \<open>
  C8. For every draft whose name is a string of length 0 the Save button is disabled,
  whatever the rest of the state is.
\<close>

theorem empty_name_disables_save:
  assumes "editedTask s = Some d" and "d ''name'' = Str n" and "length n = 0"
  shows "save_disabled s"
  using assms by (simp add: save_disabled_def)

theorem empty_name_disables_save_witness:
  "editedTask (step limits (Input NameField '''') (mount (Some walk_dog)))
     = Some (walk_dog(''name'' := Str ''''))
   \<and> save_disabled (step limits (Input NameField '''') (mount (Some walk_dog)))"
proof -
  let ?s = "step limits (Input NameField '''') (mount (Some walk_dog))"
  have d: "editedTask ?s = Some (walk_dog(''name'' := Str ''''))"
    by (simp add: model_defs example_defs)
  show ?thesis
    using d empty_name_disables_save [OF d, of "''''"] by simp
qed

subsection \<open>The validation flags\<close>

text \<open>
  C6 asks that an input event of one field leaves the other field's flag as it is. The
  handler does not: it computes both flags at every input event, each in an \<^verbatim>\<open>if\<close>
  whose \<^verbatim>\<open>else\<close> branch also takes the events of the other fields. A description of 251
  characters sets the description flag, the next keystroke in the name field clears it
  although the description is as long as before, and Save then hands the over-long
  description to \<^verbatim>\<open>onSave\<close>.
\<close>

theorem name_edit_clears_description_flag:
  "descriptionError
     (run limits [Input DescriptionField (replicate 251 CHR ''x'')] (mount (Some buy_milk)))
   \<and> \<not> descriptionError
     (run limits [Input DescriptionField (replicate 251 CHR ''x''),
                  Input NameField ''Buy oat milk''] (mount (Some buy_milk)))
   \<and> opt_chain (editedTask
     (run limits [Input DescriptionField (replicate 251 CHR ''x''),
                  Input NameField ''Buy oat milk''] (mount (Some buy_milk)))) ''description''
       = Str (replicate 251 CHR ''x'')
   \<and> trace
     (run limits [Input DescriptionField (replicate 251 CHR ''x''),
                  Input NameField ''Buy oat milk'', ClickSave] (mount (Some buy_milk)))
       = [SetBodyOverflow ''auto'',
          OnSave (buy_milk(''description'' := Str (replicate 251 CHR ''x''),
                           ''name'' := Str ''Buy oat milk'')),
          ToastSuccess (Str ''Buy oat milk'')]"
  by (simp add: model_defs example_defs handleSave_def)

subsection \<open>Following the task prop\<close>

text \<open>
  C2. Whenever the parent supplies another task, from any state the edits have led to,
  the draft and the selected categories become those of the new task: every property of
  the draft reads what it reads in the new task, so nothing of the previous draft is
  left, and when a task is supplied the draft is that task. The same holds when the
  component is mounted.
\<close>

theorem task_change_replaces_draft:
  assumes "task_ok T"
  shows "spread (editedTask (step c (TaskProp T) s)) = spread T
       \<and> selectedCategories (step c (TaskProp T) s) = opt_chain T ''category''
       \<and> (T \<noteq> None \<longrightarrow> editedTask (step c (TaskProp T) s) = T)
       \<and> spread (editedTask (mount T)) = spread T
       \<and> selectedCategories (mount T) = opt_chain T ''category''
       \<and> (T \<noteq> None \<longrightarrow> editedTask (mount T) = T)"
proof -
  let ?r = "s\<lparr>task := T\<rparr>"
  let ?s1 = "run_effects False True False ?r"
  have step_eq: "step c (TaskProp T) s = rerender ?r ?s1"
    by (simp add: commit_def)
  have a: "emoji ?s1 = emoji ?r" "editedTask ?s1 = T"
    "selectedCategories ?s1 = opt_chain T ''category''"
    by (simp_all add: run_effects_def task_effect_def)
  note r = reset_settles [OF assms a]
  have m: "T \<noteq> None \<longrightarrow> editedTask (mount T) = T"
    using mount_settles(1) [OF assms] by (cases T) simp_all
  show ?thesis
    unfolding step_eq using r(1,2,3) m mount_settles [OF assms] by simp
qed

theorem task_change_replaces_draft_witness:
  "task_ok (Some walk_dog)
   \<and> editedTask (step limits (TaskProp (Some walk_dog))
        (run limits [Input NameField ''Buy oat milk'', PickColor ''#00ff00'',
                     SelectCategories [Category 3], PickEmoji (Some ''1f95b''),
                     Input DeadlineField ''2024-01-01T10:00'']
           (mount (Some buy_milk)))) = Some walk_dog
   \<and> selectedCategories (step limits (TaskProp (Some walk_dog))
        (run limits [Input NameField ''Buy oat milk'', PickColor ''#00ff00'',
                     SelectCategories [Category 3], PickEmoji (Some ''1f95b''),
                     Input DeadlineField ''2024-01-01T10:00'']
           (mount (Some buy_milk)))) = Cats [Category 1, Category 2]
   \<and> editedTask (mount (Some walk_dog)) = Some walk_dog"
proof -
  have ok: "task_ok (Some walk_dog)"
    by (simp add: is_Task_def walk_dog_def empty_obj_def)
  have cat: "opt_chain (Some walk_dog) ''category'' = Cats [Category 1, Category 2]"
    by (simp add: walk_dog_def)
  show ?thesis
    using ok cat task_change_replaces_draft [OF ok, of limits]
    by simp
qed

subsection \<open>Cancelling\<close>

text \<open>
  C7. Both cancel paths, the Cancel button and the dismissal of the dialog, call
  \<^verbatim>\<open>onClose\<close> exactly once and leave the draft and the selected categories equal to the
  supplied task's: every property of the draft reads what it reads in the task, and when
  a task is supplied the draft is that task.
\<close>

theorem cancel_restores_task:
  assumes "task_ok (task s)" and "ev = ClickCancel \<or> ev = DialogDismiss"
  shows "trace (step c ev s) = trace s @ [OnClose]
       \<and> spread (editedTask (step c ev s)) = spread (task s)
       \<and> selectedCategories (step c ev s) = opt_chain (task s) ''category''
       \<and> (task s \<noteq> None \<longrightarrow> editedTask (step c ev s) = task s)"
proof -
  have same: "dialogOnClose s = handleCancel s"
    by (simp add: dialogOnClose_def handleCancel_def)
  have step_eq: "step c ev s = commit False False s (handleCancel s)"
    using assms(2) by (auto simp add: same)
  have c: "js_or (opt_chain (task s) ''category'') Undefined = opt_chain (task s) ''category''"
    using assms(1) by (simp add: js_or_opt_cats task_ok_category)
  have t: "task s \<noteq> None \<Longrightarrow> Some (spread (task s)) = task s"
    by (cases "task s") simp_all
  show ?thesis
    unfolding step_eq using c t
    by (simp add: commit_def rerender_def run_effects_def categories_effect_def
        emoji_effect_def handleCancel_def Let_def spread_category_triv)
qed

theorem cancel_restores_task_witness:
  "task_ok (task (run limits [Input NameField ''Buy oat milk'', SelectCategories [Category 3],
                              PickEmoji (Some ''1f95b'')] (mount (Some walk_dog))))
   \<and> opt_chain (editedTask (run limits [Input NameField ''Buy oat milk'',
        SelectCategories [Category 3], PickEmoji (Some ''1f95b'')] (mount (Some walk_dog))))
        ''name'' = Str ''Buy oat milk''
   \<and> editedTask (step limits ClickCancel (run limits [Input NameField ''Buy oat milk'',
        SelectCategories [Category 3], PickEmoji (Some ''1f95b'')] (mount (Some walk_dog))))
       = Some walk_dog
   \<and> editedTask (step limits DialogDismiss (run limits [Input NameField ''Buy oat milk'',
        SelectCategories [Category 3], PickEmoji (Some ''1f95b'')] (mount (Some walk_dog))))
       = Some walk_dog
   \<and> trace (step limits DialogDismiss (run limits [Input NameField ''Buy oat milk'',
        SelectCategories [Category 3], PickEmoji (Some ''1f95b'')] (mount (Some walk_dog))))
       = [OnClose]"
proof -
  let ?s = "run limits [Input NameField ''Buy oat milk'', SelectCategories [Category 3],
                        PickEmoji (Some ''1f95b'')] (mount (Some walk_dog))"
  have tk: "task ?s = Some walk_dog" and tr: "trace ?s = []"
    and nm: "opt_chain (editedTask ?s) ''name'' = Str ''Buy oat milk''"
    by (simp_all add: model_defs limits_def)
  have ok: "task_ok (task ?s)"
    unfolding tk by (simp add: is_Task_def walk_dog_def empty_obj_def)
  show ?thesis
    using ok tk tr nm
      cancel_restores_task [OF ok, of ClickCancel limits]
      cancel_restores_task [OF ok, of DialogDismiss limits]
    by simp
qed

subsection \<open>The selected categories\<close>

text \<open>
  Deselecting every category of a task that had two leaves the draft's category field
  holding the empty list: the field is set, not absent.
\<close>

theorem empty_selection_keeps_category_set:
  "selectedCategories (step limits (SelectCategories []) (mount (Some walk_dog))) = Cats []
   \<and> opt_chain (editedTask (step limits (SelectCategories []) (mount (Some walk_dog)))) ''category''
       = Cats []
   \<and> opt_chain (editedTask (step limits (SelectCategories []) (mount (Some walk_dog)))) ''category''
       \<noteq> Undefined"
  by (simp add: model_defs example_defs)

text \<open>
  C5, as amended. For every change of the selected-categories list the category effect
  overwrites the draft's category field with the list whenever the list is present, the
  empty list included, and with \<^verbatim>\<open>undefined\<close> only when the list is absent; a selection
  reported by the category selector arrives in the draft as it is.
\<close>

theorem categories_change_overwrites_category:
  assumes "is_opt_cats (selectedCategories r)"
  shows "editedTask (categories_effect r s)
           = Some ((spread (editedTask s))(''category'' := selectedCategories r))
       \<and> (enableCategories c \<longrightarrow>
            editedTask (step c (SelectCategories cs) s)
              = Some ((spread (editedTask s))(''category'' := Cats cs))
            \<and> selectedCategories (step c (SelectCategories cs) s) = Cats cs)"
proof -
  have a: "js_or (Cats cs) Undefined = Cats cs"
    by (simp add: js_or_def)
  show ?thesis
    using js_or_opt_cats [OF assms] a
    by (simp add: commit_def rerender_def run_effects_def categories_effect_def
        setSelectedCategories_def Let_def)
qed

theorem categories_change_overwrites_category_witness:
  "is_opt_cats (selectedCategories (step limits (TaskProp None) (mount (Some walk_dog))))
   \<and> selectedCategories (step limits (TaskProp None) (mount (Some walk_dog))) = Undefined
   \<and> editedTask (categories_effect (step limits (TaskProp None) (mount (Some walk_dog)))
                    (mount (Some walk_dog)))
       = Some (walk_dog(''category'' := Undefined))
   \<and> enableCategories limits
   \<and> editedTask (step limits (SelectCategories [Category 2]) (mount (Some walk_dog)))
       = Some (walk_dog(''category'' := Cats [Category 2]))"
proof -
  let ?r = "step limits (TaskProp None) (mount (Some walk_dog))"
  have h: "is_opt_cats (selectedCategories ?r)" and u: "selectedCategories ?r = Undefined"
    by (simp_all add: model_defs)
  have d: "editedTask (mount (Some walk_dog)) = Some walk_dog"
    by (simp add: model_defs example_defs)
  have en: "enableCategories limits"
    by (simp add: limits_def)
  show ?thesis
    using h u d en
      categories_change_overwrites_category [OF h, of "mount (Some walk_dog)" limits "[Category 2]"]
    by simp
qed

end
